theory Spec2Isabelle
  imports
    Complex_Main
    "HOL-Library.Char_ord"
    "HOL-Library.List_Lexorder"
begin

section \<open>GTFS to GMNS conversion: data and helpers\<close>

text \<open>
  The program (\<^verbatim>\<open>gtfs2gmns.py\<close>, class \<^verbatim>\<open>GTFS2GMNS\<close>) works on pandas data frames.
  A frame is modelled as the list of its rows, in row order, and a row as a record of the
  columns the program reads. Identifiers are strings, compared and sorted as Python compares
  strings (lexicographically by character code); Python integers are \<^typ>\<open>int\<close>; floating
  point columns (coordinates, lengths, travel times) are modelled as \<^typ>\<open>real\<close>, so rounding
  is not followed. A function that can raise returns \<open>error + 'a\<close>, with \<open>Inl\<close> for the
  exception.
\<close>

datatype error =
    ValueError
  | KeyError
  | IndexError
  | OverflowError
  | ZeroDivisionError
  | Other_time_notation

fun traverse :: "('a \<Rightarrow> error + 'b) \<Rightarrow> 'a list \<Rightarrow> error + 'b list" where
  "traverse f [] = Inr []"
| "traverse f (x # xs) =
     (case f x of
        Inl e \<Rightarrow> Inl e
      | Inr y \<Rightarrow> (case traverse f xs of Inl e \<Rightarrow> Inl e | Inr ys \<Rightarrow> Inr (y # ys)))"

text \<open>
  \<^verbatim>\<open>astype('int32')\<close> and arithmetic on an int32 column: the value is kept modulo \<open>2^32\<close> in
  the range \<open>-2^31 .. 2^31 - 1\<close>.
\<close>

definition int32 :: "int \<Rightarrow> int" where
  "int32 i = (i + 2147483648) mod 4294967296 - 2147483648"

text \<open>
  Python's \<^verbatim>\<open>str\<close> on an integer: decimal digits, with a minus sign when negative
  (\<open>digit_char\<close> is only applied to a digit below 10).
\<close>

definition digit_char :: "nat \<Rightarrow> char" where
  "digit_char d = ''0123456789'' ! d"

function str_nat :: "nat \<Rightarrow> string" where
  "str_nat n = (if n < 10 then [digit_char n] else str_nat (n div 10) @ [digit_char (n mod 10)])"
  by pat_completeness auto
termination
  by (relation "measure (\<lambda>n. n)") auto

declare str_nat.simps [simp del]

definition str_int :: "int \<Rightarrow> string" where
  "str_int i = (if i < 0 then CHR ''-'' # str_nat (nat (- i)) else str_nat (nat i))"

text \<open>Python's \<^verbatim>\<open>s.strip('"')\<close>: every leading and every trailing double quote is removed.\<close>

definition strip_quotes :: "string \<Rightarrow> string" where
  "strip_quotes s =
     rev (dropWhile (\<lambda>c. c = CHR 0x22) (rev (dropWhile (\<lambda>c. c = CHR 0x22) s)))"

text \<open>
  \<^verbatim>\<open>Series.unique()\<close>: the distinct values in order of first appearance.
  \<^verbatim>\<open>DataFrame.drop_duplicates(subset=[c])\<close> (\<^verbatim>\<open>keep='first'\<close>): a row stays exactly when no
  earlier row has the same value in column \<open>c\<close>.
\<close>

fun drop_duplicates_first :: "('a \<Rightarrow> 'k) \<Rightarrow> 'a list \<Rightarrow> 'a list" where
  "drop_duplicates_first key [] = []"
| "drop_duplicates_first key (x # xs) =
     x # drop_duplicates_first key (filter (\<lambda>y. key y \<noteq> key x) xs)"

definition unique :: "'a list \<Rightarrow> 'a list" where
  "unique xs = drop_duplicates_first (\<lambda>x. x) xs"

text \<open>
  \<^verbatim>\<open>DataFrame.groupby(c)\<close>, iterated: one group per distinct value of the column, in ascending
  order of the value; a group holds its rows in frame order.
\<close>

definition groupby :: "('a \<Rightarrow> 'k::linorder) \<Rightarrow> 'a list \<Rightarrow> ('k \<times> 'a list) list" where
  "groupby key df = map (\<lambda>k. (k, filter (\<lambda>r. key r = k) df)) (sort (remdups (map key df)))"

text \<open>
  \<^verbatim>\<open>pd.merge(left, right, on=c)\<close> is pandas' default inner join: every pair of a left row and
  a right row with equal key gives one merged row, in the order of the left rows; a left row
  without a partner gives none. A merged row is modelled as the pair of its two source rows.
\<close>

definition merge :: "('a \<Rightarrow> 'k) \<Rightarrow> ('b \<Rightarrow> 'k) \<Rightarrow> 'a list \<Rightarrow> 'b list \<Rightarrow> ('a \<times> 'b) list" where
  "merge lkey rkey left right =
     concat (map (\<lambda>l. map (\<lambda>r. (l, r)) (filter (\<lambda>r. rkey r = lkey l) right)) left)"

text \<open>\<^verbatim>\<open>pd.concat(frames)\<close> raises \<^verbatim>\<open>ValueError\<close> ("No objects to concatenate") on an empty list.\<close>

definition pd_concat :: "'a list list \<Rightarrow> error + 'a list" where
  "pd_concat frames = (if frames = [] then Inl ValueError else Inr (concat frames))"

section \<open>The tables\<close>

subsection \<open>The five GTFS files\<close>

record stops_row =
  stops_stop_id :: string
  stops_stop_name :: string
  stops_stop_lat :: real
  stops_stop_lon :: real

record routes_row =
  routes_route_id :: string
  routes_route_short_name :: string
  routes_route_long_name :: string
  routes_route_type :: int

record trips_row =
  trips_trip_id :: string
  trips_route_id :: string
  trips_direction_id :: int

text \<open>
  A row of \<^verbatim>\<open>stop_times.txt\<close> as read: a time cell is \<open>None\<close> when pandas reads it as missing
  (NaN) and the text of the cell otherwise.
\<close>

record stop_times_row =
  st_trip_id :: string
  st_arrival_time :: "string option"
  st_departure_time :: "string option"
  st_stop_id :: string
  st_stop_sequence :: int

text \<open>
  The input folder: the \<^verbatim>\<open>agency_name\<close> column of \<^verbatim>\<open>agency.txt\<close>, the four other files, and
  whether \<^verbatim>\<open>trips.txt\<close> has a \<^verbatim>\<open>direction_id\<close> column (without it the program fills in "0" and
  \<open>trips_direction_id\<close> is not read).
\<close>

record gtfs =
  agency_txt :: "string list"
  stops_txt :: "stops_row list"
  routes_txt :: "routes_row list"
  trips_has_direction_id :: bool
  trips_txt :: "trips_row list"
  stop_times_txt :: "stop_times_row list"

text \<open>
  The object's analysis window, in minutes: \<^verbatim>\<open>self.period_start_time\<close> and
  \<^verbatim>\<open>self.period_end_time\<close>, which \<^verbatim>\<open>__init__\<close> gets from \<^verbatim>\<open>hhmm_to_minutes(time_period)\<close>.
\<close>

record GTFS2GMNS =
  period_start_time :: int
  period_end_time :: int

subsection \<open>Derived frames\<close>

text \<open>\<^verbatim>\<open>trip_df\<close> after the direction has been recoded and \<^verbatim>\<open>directed_route_id\<close> added.\<close>

record trip =
  trip_trip_id :: string
  trip_route_id :: string
  trip_direction_id :: string
  trip_directed_route_id :: string

text \<open>
  \<^verbatim>\<open>stop_time_df\<close> after the times have been converted to minutes. The arrival time is a
  number in every row that is left; the departure time of a row whose cell was missing is
  NaN, modelled as \<open>None\<close>. The helpers \<^verbatim>\<open>determine_terminal_flag\<close> and
  \<^verbatim>\<open>stop_sequence_label\<close> each add a column, and the enriched frame
  \<^verbatim>\<open>directed_trip_route_stop_time_df\<close> adds the columns of the trip, the route and the stop.
\<close>

record stop_time =
  trip_id :: string
  arrival_time :: int
  departure_time :: "int option"
  stop_id :: string
  stop_sequence :: int

record flagged_stop_time = stop_time +
  terminal_flag :: string

record labeled_stop_time = flagged_stop_time +
  stop_sequence_label :: string

record frame_row = labeled_stop_time +
  route_id :: string
  direction_id :: string
  directed_route_id :: string
  route_type :: int
  directed_route_stop_id :: string
  directed_service_stop_id :: string
  directed_service_id :: string
  stop_lat :: real
  stop_lon :: real
  agency_name :: string

subsection \<open>Nodes\<close>

text \<open>
  A row of the node table. The columns \<^verbatim>\<open>zone_id\<close>, \<^verbatim>\<open>ctrl_type\<close> and \<^verbatim>\<open>agent_type\<close> (always
  the empty string) and the text \<^verbatim>\<open>geometry\<close> are left out.
\<close>

record node =
  node_name :: string
  node_id :: int
  physical_node_id :: int
  x_coord :: real
  y_coord :: real
  node_route_type :: int
  node_route_id :: string
  node_type :: string
  node_directed_route_id :: string
  node_directed_service_id :: string
  node_agency_name :: string
  node_terminal_flag :: string

subsection \<open>Links\<close>

text \<open>
  A row of the link list. The program builds each row as a Python list of 23 cells; the record
  keeps the cells that are numbers or names computed by \<^verbatim>\<open>gtfs2gmns.py\<close> itself. Left out are
  the constant cells \<^verbatim>\<open>VDF_alpha1\<close>, \<^verbatim>\<open>VDF_beta1\<close>, the cells whose type changes between link kinds
  (\<^verbatim>\<open>directed_route_id\<close>, \<^verbatim>\<open>stop_sequence\<close>), the derived \<^verbatim>\<open>free_speed\<close>, the text
  \<^verbatim>\<open>geometry\<close>, and the two cells that only hold the result of a helper of \<^verbatim>\<open>func_lib\<close>
  (\<^verbatim>\<open>VDF_penalty1\<close>, \<^verbatim>\<open>allowed_use\<close>). None of them is read again by the program.
\<close>

record link =
  link_id :: int
  from_node_id :: int
  to_node_id :: int
  facility_type :: string
  dir_flag :: int
  link_type :: int
  link_type_name :: string
  length_m :: real
  lanes :: int
  capacity :: int
  cost :: int
  VDF_fftt1 :: real
  VDF_cap1 :: int
  link_agency_name :: string
  link_directed_service_id :: string

section \<open>Helpers imported from \<^verbatim>\<open>func_lib\<close>\<close>

text \<open>
  \<^verbatim>\<open>gtfs2gmns.py\<close> imports its helpers from the package \<^verbatim>\<open>func_lib\<close>. Of that package only
  \<^verbatim>\<open>generate_access_link.py\<close> is at hand, and it defines none of them. The helpers the model
  calls are therefore its parameters, collected in one record; nothing is assumed about them. (The helper \<^verbatim>\<open>stop_sequence_label\<close> has the name of
  the column it adds; as a field of the record it is \<open>stop_sequence_label_func\<close>.)
\<close>

record func_lib =
  determine_terminal_flag :: "stop_time list \<Rightarrow> flagged_stop_time list"
  stop_sequence_label_func :: "flagged_stop_time list \<Rightarrow> labeled_stop_time list"
  convert_route_type_to_node_type_p :: "int \<Rightarrow> string"
  convert_route_type_to_node_type_s :: "int \<Rightarrow> string"
  convert_route_type_to_link_type :: "int \<Rightarrow> string"
  calculate_distance_from_geometry :: "real \<Rightarrow> real \<Rightarrow> real \<Rightarrow> real \<Rightarrow> real"

section \<open>Ingest and trip labeling: \<^verbatim>\<open>read_gtfs_data\<close>\<close>

subsection \<open>Trips and routes\<close>

text \<open>
  \<^verbatim>\<open>direction_id\<close> becomes \<^verbatim>\<open>str(2 - int(direction_id))\<close>, with "0" for a file without the column,
  and \<^verbatim>\<open>directed_route_id\<close> is \<^verbatim>\<open>route_id\<close>, a dot and the recoded direction.
\<close>

definition recode_direction :: "bool \<Rightarrow> trips_row \<Rightarrow> trip" where
  "recode_direction has_direction_id x =
     (let d = str_int (2 - (if has_direction_id then trips_direction_id x else 0))
      in \<lparr>trip_trip_id = trips_trip_id x,
          trip_route_id = trips_route_id x,
          trip_direction_id = d,
          trip_directed_route_id = trips_route_id x @ ''.'' @ d\<rparr>)"

text \<open>
  \<^verbatim>\<open>df['route_id'][0][0] == '"'\<close>: the first character of the first row's \<^verbatim>\<open>route_id\<close>; the
  lookup of row 0 raises on an empty frame, the index 0 on an empty string.
\<close>

definition starts_with_quote :: "string list \<Rightarrow> error + bool" where
  "starts_with_quote col =
     (case col of
        [] \<Rightarrow> Inl KeyError
      | s # _ \<Rightarrow> (case s of [] \<Rightarrow> Inl IndexError | c # _ \<Rightarrow> Inr (c = CHR 0x22)))"

definition repair_quotes ::
  "routes_row list \<Rightarrow> trip list \<Rightarrow> error + (routes_row list \<times> trip list)" where
  "repair_quotes route_df trip_df =
     (case starts_with_quote (map routes_route_id route_df) of
        Inl e \<Rightarrow> Inl e
      | Inr route_quoted \<Rightarrow>
     (case starts_with_quote (map trip_route_id trip_df) of
        Inl e \<Rightarrow> Inl e
      | Inr trip_quoted \<Rightarrow>
          if route_quoted \<noteq> trip_quoted then
            (if route_quoted
             then Inr (map (\<lambda>x. x\<lparr>routes_route_id := strip_quotes (routes_route_id x)\<rparr>) route_df,
                       trip_df)
             else Inr (route_df,
                       map (\<lambda>x. x\<lparr>trip_route_id := strip_quotes (trip_route_id x)\<rparr>) trip_df))
          else Inr (route_df, trip_df)))"

text \<open>
  \<^verbatim>\<open>trip_route_df = pd.merge(trip_df, route_df, on='route_id')\<close>. The call passes no \<^verbatim>\<open>how\<close>, so
  it is the inner join \<^const>\<open>merge\<close>.
\<close>

definition trip_route_merge :: "trip list \<Rightarrow> routes_row list \<Rightarrow> (trip \<times> routes_row) list" where
  "trip_route_merge trip_df route_df = merge trip_route_id routes_route_id trip_df route_df"

subsection \<open>Stop times without a time\<close>

text \<open>
  The five filters of \<^verbatim>\<open>read_gtfs_data\<close>, in the order of the source: \<^verbatim>\<open>dropna\<close> on the
  subset \<^verbatim>\<open>['arrival_time']\<close>, then the comparisons with the empty string and with a single
  blank. A missing cell is different from every string, so the comparisons keep it.
\<close>

definition drop_blank_times :: "stop_times_row list \<Rightarrow> stop_times_row list" where
  "drop_blank_times stop_time_df =
     (let df1 = filter (\<lambda>r. st_arrival_time r \<noteq> None) stop_time_df;
          df2 = filter (\<lambda>r. st_arrival_time r \<noteq> Some []) df1;
          df3 = filter (\<lambda>r. st_departure_time r \<noteq> Some []) df2;
          df4 = filter (\<lambda>r. st_arrival_time r \<noteq> Some '' '') df3;
          df5 = filter (\<lambda>r. st_departure_time r \<noteq> Some '' '') df4
      in df5)"

subsection \<open>Times as minutes\<close>

text \<open>
  \<^verbatim>\<open>pd.to_timedelta\<close> on a clock text \<^verbatim>\<open>H:M:S\<close> (three fields of decimal digits) gives the
  duration of \<open>H\<close> hours, \<open>M\<close> minutes and \<open>S\<close> seconds, here in seconds. pandas reads other
  notations of a duration as well; the model does not follow them and answers
  \<^const>\<open>Other_time_notation\<close>.
\<close>

fun split_on :: "char \<Rightarrow> string \<Rightarrow> string list" where
  "split_on c [] = [[]]"
| "split_on c (x # xs) =
     (if x = c then [] # split_on c xs
      else (case split_on c xs of [] \<Rightarrow> [[x]] | w # ws \<Rightarrow> (x # w) # ws))"

definition is_digit :: "char \<Rightarrow> bool" where
  "is_digit c = (c \<in> set ''0123456789'')"

definition digit_value :: "char \<Rightarrow> nat" where
  "digit_value c = of_char c - 48"

definition parse_nat :: "string \<Rightarrow> nat option" where
  "parse_nat s =
     (if s \<noteq> [] \<and> list_all is_digit s
      then Some (foldl (\<lambda>a c. 10 * a + digit_value c) 0 s) else None)"

definition to_timedelta :: "string \<Rightarrow> error + nat" where
  "to_timedelta s =
     (case map parse_nat (split_on CHR '':'' s) of
        [Some h, Some m, Some sec] \<Rightarrow> Inr (3600 * h + 60 * m + sec)
      | _ \<Rightarrow> Inl Other_time_notation)"

text \<open>
  Adding \<^verbatim>\<open>tt = datetime(2021, 1, 1)\<close> gives a time stamp; the program reads its day of the
  month, hour and minute. A pandas time stamp counts nanoseconds since 1970 in 64 bits
  (2021-01-01 is second 1609459200); for a duration that leads beyond that range the model
  answers \<^const>\<open>OverflowError\<close> and does not follow pandas' arithmetic further. No property
  below is about such a duration.
\<close>

record Timestamp =
  day :: nat
  hour :: nat
  minute :: nat

definition is_leap_year :: "nat \<Rightarrow> bool" where
  "is_leap_year y = (y mod 4 = 0 \<and> (y mod 100 \<noteq> 0 \<or> y mod 400 = 0))"

definition days_in_month :: "nat \<Rightarrow> nat \<Rightarrow> nat" where
  "days_in_month y m =
     (if m = 2 then (if is_leap_year y then 29 else 28)
      else if m = 4 \<or> m = 6 \<or> m = 9 \<or> m = 11 then 30 else 31)"

text \<open>The day of the month that lies \<open>d\<close> days after the first day of month \<open>m\<close> of year \<open>y\<close>.\<close>

function day_of_month :: "nat \<Rightarrow> nat \<Rightarrow> nat \<Rightarrow> nat" where
  "day_of_month y m d =
     (if d < days_in_month y m then d + 1
      else day_of_month (if m = 12 then y + 1 else y) (if m = 12 then 1 else m + 1)
             (d - days_in_month y m))"
  by pat_completeness auto
termination
  by (relation "measure (\<lambda>(y, m, d). d)") (auto simp: days_in_month_def)

declare day_of_month.simps [simp del]

definition plus_tt :: "nat \<Rightarrow> error + Timestamp" where
  "plus_tt seconds =
     (if (1609459200 + int seconds) * 1000000000 > 2 ^ 63 - 1 then Inl OverflowError
      else Inr \<lparr>day = day_of_month 2021 1 (seconds div 86400),
                hour = seconds div 3600 mod 24,
                minute = seconds div 60 mod 60\<rparr>)"

text \<open>\<^verbatim>\<open>lambda x: x.hour * 60 + x.minute + 1440 * (x.day - 1)\<close>\<close>

definition minutes_of :: "Timestamp \<Rightarrow> int" where
  "minutes_of x = int (hour x) * 60 + int (minute x) + 1440 * (int (day x) - 1)"

definition time_to_minutes :: "string \<Rightarrow> error + int" where
  "time_to_minutes s =
     (case to_timedelta s of
        Inl e \<Rightarrow> Inl e
      | Inr seconds \<Rightarrow> (case plus_tt seconds of Inl e \<Rightarrow> Inl e | Inr x \<Rightarrow> Inr (minutes_of x)))"

text \<open>
  The two columns are converted one after the other. After \<^const>\<open>drop_blank_times\<close> no
  arrival cell is missing (lemma \<open>drop_blank_times_arrival\<close> below), so the branch for a
  missing arrival is never taken. A missing departure stays missing: \<^verbatim>\<open>to_timedelta\<close> gives
  \<^verbatim>\<open>NaT\<close>, whose fields are NaN.
\<close>

definition arrival_minutes :: "string option \<Rightarrow> error + int" where
  "arrival_minutes cell = (case cell of None \<Rightarrow> Inl ValueError | Some s \<Rightarrow> time_to_minutes s)"

definition departure_minutes :: "string option \<Rightarrow> error + int option" where
  "departure_minutes cell =
     (case cell of
        None \<Rightarrow> Inr None
      | Some s \<Rightarrow> (case time_to_minutes s of Inl e \<Rightarrow> Inl e | Inr v \<Rightarrow> Inr (Some v)))"

definition convert_times :: "stop_times_row list \<Rightarrow> error + stop_time list" where
  "convert_times stop_time_df =
     (case traverse arrival_minutes (map st_arrival_time stop_time_df) of
        Inl e \<Rightarrow> Inl e
      | Inr arrivals \<Rightarrow>
     (case traverse departure_minutes (map st_departure_time stop_time_df) of
        Inl e \<Rightarrow> Inl e
      | Inr departures \<Rightarrow>
          Inr (map (\<lambda>(r, a, d).
                 \<lparr>trip_id = st_trip_id r, arrival_time = a, departure_time = d,
                  stop_id = st_stop_id r, stop_sequence = st_stop_sequence r\<rparr>)
               (zip stop_time_df (zip arrivals departures)))))"

subsection \<open>Trips in the analysis window\<close>

text \<open>
  The loop over \<^verbatim>\<open>stop_time_df.groupby(['trip_id'])\<close>: each group is sorted by
  \<^verbatim>\<open>stop_sequence\<close> and appended to \<^verbatim>\<open>input_list\<close> when \<^verbatim>\<open>mask1 and mask2\<close>. (Rows of one trip
  with the same \<^verbatim>\<open>stop_sequence\<close> keep their order here; pandas does not promise an order for
  them.)
\<close>

definition in_window :: "GTFS2GMNS \<Rightarrow> stop_time list \<Rightarrow> bool" where
  "in_window self trip_stop_time_df =
     (let mask1 = min_list (map arrival_time trip_stop_time_df) \<le> period_end_time self;
          mask2 = min_list (map arrival_time trip_stop_time_df) \<ge> period_start_time self
      in mask1 \<and> mask2)"

definition input_list :: "GTFS2GMNS \<Rightarrow> stop_time list \<Rightarrow> stop_time list list" where
  "input_list self stop_time_df =
     filter (in_window self)
       (map (\<lambda>(t, trip_stop_time_df). sort_key stop_sequence trip_stop_time_df)
          (groupby trip_id stop_time_df))"

text \<open>
  For the properties of the window filter: the earliest arrival time among the rows of trip
  \<open>t\<close>, and the group of trip \<open>t\<close> as the loop holds it (its rows, sorted by
  \<^verbatim>\<open>stop_sequence\<close>).
\<close>

definition min_arrival :: "stop_time list \<Rightarrow> string \<Rightarrow> int" where
  "min_arrival stop_time_df t = Min (arrival_time ` {r \<in> set stop_time_df. trip_id r = t})"

definition trip_rows :: "stop_time list \<Rightarrow> string \<Rightarrow> stop_time list" where
  "trip_rows stop_time_df t = sort_key stop_sequence (filter (\<lambda>r. trip_id r = t) stop_time_df)"

definition stop_time_df_with_terminal ::
  "func_lib \<Rightarrow> GTFS2GMNS \<Rightarrow> stop_time list \<Rightarrow> error + labeled_stop_time list" where
  "stop_time_df_with_terminal lib self stop_time_df =
     (let intermediate_output_list = map (determine_terminal_flag lib) (input_list self stop_time_df);
          output_list = map (stop_sequence_label_func lib) intermediate_output_list
      in pd_concat output_list)"

subsection \<open>The enriched frame\<close>

text \<open>
  One row of \<^verbatim>\<open>directed_trip_route_stop_time_df\<close>, from a row of the merge of \<^verbatim>\<open>trip_route_df\<close>
  with the labeled stop times (on \<^verbatim>\<open>trip_id\<close>) and its partner in \<^verbatim>\<open>stop_df\<close> (on \<^verbatim>\<open>stop_id\<close>).
\<close>

definition enriched_row ::
  "string \<Rightarrow> ((trip \<times> routes_row) \<times> labeled_stop_time) \<times> stops_row \<Rightarrow> frame_row" where
  "enriched_row agency = (\<lambda>(((t, r), x), s).
     \<lparr>trip_id = trip_id x,
      arrival_time = arrival_time x,
      departure_time = departure_time x,
      stop_id = stop_id x,
      stop_sequence = int32 (stop_sequence x),
      terminal_flag = terminal_flag x,
      stop_sequence_label = stop_sequence_label x,
      route_id = trip_route_id t,
      direction_id = trip_direction_id t,
      directed_route_id = trip_directed_route_id t,
      route_type = routes_route_type r,
      directed_route_stop_id = trip_directed_route_id t @ ''.'' @ stop_id x,
      directed_service_stop_id =
        (trip_directed_route_id t @ ''.'' @ stop_id x) @ '':'' @ stop_sequence_label x,
      directed_service_id = trip_directed_route_id t @ '':'' @ stop_sequence_label x,
      stop_lat = stops_stop_lat s,
      stop_lon = stops_stop_lon s,
      agency_name = agency\<rparr>)"

text \<open>
  \<^verbatim>\<open>read_gtfs_data\<close>, from the tables as read to the enriched frame (the last of the six frames
  it returns, and the only one \<^verbatim>\<open>main\<close> uses).
\<close>

definition read_gtfs_data :: "func_lib \<Rightarrow> GTFS2GMNS \<Rightarrow> gtfs \<Rightarrow> error + frame_row list" where
  "read_gtfs_data lib self gtfs_dir =
     (case agency_txt gtfs_dir of
        [] \<Rightarrow> Inl KeyError
      | agency # _ \<Rightarrow>
     (case repair_quotes (routes_txt gtfs_dir)
             (map (recode_direction (trips_has_direction_id gtfs_dir)) (trips_txt gtfs_dir)) of
        Inl e \<Rightarrow> Inl e
      | Inr (route_df, trip_df) \<Rightarrow>
     (case convert_times (drop_blank_times (stop_times_txt gtfs_dir)) of
        Inl e \<Rightarrow> Inl e
      | Inr stop_time_df \<Rightarrow>
     (case stop_time_df_with_terminal lib self stop_time_df of
        Inl e \<Rightarrow> Inl e
      | Inr with_terminal \<Rightarrow>
          Inr (map (enriched_row agency)
                 (merge (\<lambda>(tr, x). stop_id x) stops_stop_id
                    (merge (\<lambda>(t, r). trip_trip_id t) trip_id
                       (trip_route_merge trip_df route_df) with_terminal)
                    (stops_txt gtfs_dir)))))))"

section \<open>Node construction: \<^verbatim>\<open>create_nodes\<close>\<close>

text \<open>
  \<^verbatim>\<open>np.linspace(start=1, stop=n, num=n).astype('int32')\<close>: the ranks \<open>1, ..., n\<close>. (For a rank
  beyond \<open>2^31 - 1\<close> numpy does not define the result of the conversion; the model wraps it like
  every other int32 value, and no property below reads a rank that large.)
\<close>

definition ranks :: "nat \<Rightarrow> int list" where
  "ranks n = map int32 [1 .. int n]"

text \<open>
  The physical node made from a row of \<^verbatim>\<open>temp_df\<close> (the enriched frame without repeated
  \<^verbatim>\<open>stop_id\<close>) and its rank. The frame \<^verbatim>\<open>physical_node_df\<close> gets its \<^verbatim>\<open>name\<close> column from
  \<^verbatim>\<open>temp_df\<close> and is sorted by it; \<^verbatim>\<open>node_id\<close> is the rank in that order plus 1000000; every
  other column is assigned from a column of \<^verbatim>\<open>temp_df\<close>, which pandas aligns on the row label,
  and sorting keeps the labels. So a node holds the cells of the \<^verbatim>\<open>temp_df\<close> row that gave it
  its name.
\<close>

definition physical_node :: "func_lib \<Rightarrow> frame_row \<times> int \<Rightarrow> node" where
  "physical_node lib = (\<lambda>(r, rank).
     \<lparr>node_name = stop_id r,
      node_id = int32 (rank + 1000000),
      physical_node_id = int32 (rank + 1000000),
      x_coord = stop_lon r,
      y_coord = stop_lat r,
      node_route_type = route_type r,
      node_route_id = route_id r,
      node_type = convert_route_type_to_node_type_p lib (route_type r),
      node_directed_route_id = [],
      node_directed_service_id = [],
      node_agency_name = agency_name r,
      node_terminal_flag = terminal_flag r\<rparr>)"

text \<open>
  A service node, in the same way from a row of the frame without repeated
  \<^verbatim>\<open>directed_service_stop_id\<close>; \<^verbatim>\<open>stop_name_id_dict[x.stop_id]\<close> raises for a name that is not a
  key.
\<close>

definition service_node ::
  "func_lib \<Rightarrow> (string \<rightharpoonup> int) \<Rightarrow> frame_row \<times> int \<Rightarrow> error + node" where
  "service_node lib stop_name_id_dict = (\<lambda>(r, rank).
     (case stop_name_id_dict (stop_id r) of
        None \<Rightarrow> Inl KeyError
      | Some p \<Rightarrow>
          Inr \<lparr>node_name = directed_service_stop_id r,
               node_id = int32 (rank + 1500000),
               physical_node_id = p,
               x_coord = stop_lon r - 0.0001,
               y_coord = stop_lat r - 0.0001,
               node_route_type = route_type r,
               node_route_id = route_id r,
               node_type = convert_route_type_to_node_type_s lib (route_type r),
               node_directed_route_id = directed_route_id r,
               node_directed_service_id = directed_service_id r,
               node_agency_name = agency_name r,
               node_terminal_flag = terminal_flag r\<rparr>))"

definition physical_node_df :: "func_lib \<Rightarrow> frame_row list \<Rightarrow> node list" where
  "physical_node_df lib directed_trip_route_stop_time_df =
     (let temp_df = drop_duplicates_first stop_id directed_trip_route_stop_time_df
      in map (physical_node lib) (zip (sort_key stop_id temp_df) (ranks (length temp_df))))"

definition service_node_df ::
  "func_lib \<Rightarrow> (string \<rightharpoonup> int) \<Rightarrow> frame_row list \<Rightarrow> error + node list" where
  "service_node_df lib stop_name_id_dict directed_trip_route_stop_time_df =
     (let temp_df = drop_duplicates_first directed_service_stop_id directed_trip_route_stop_time_df
      in traverse (service_node lib stop_name_id_dict)
           (zip (sort_key directed_service_stop_id temp_df) (ranks (length temp_df))))"

text \<open>\<^verbatim>\<open>dict(zip(keys, values))\<close>: a later pair replaces an earlier one with the same key.\<close>

definition dict_zip :: "'k list \<Rightarrow> 'v list \<Rightarrow> ('k \<rightharpoonup> 'v)" where
  "dict_zip ks vs = Map.empty(ks [\<mapsto>] vs)"

definition create_nodes :: "func_lib \<Rightarrow> frame_row list \<Rightarrow> error + node list" where
  "create_nodes lib directed_trip_route_stop_time_df =
     (let physical = physical_node_df lib directed_trip_route_stop_time_df;
          stop_name_id_dict = dict_zip (map node_name physical) (map node_id physical)
      in case service_node_df lib stop_name_id_dict directed_trip_route_stop_time_df of
           Inl e \<Rightarrow> Inl e
         | Inr service \<Rightarrow> Inr (physical @ service))"

section \<open>Service and boarding links: \<^verbatim>\<open>create_service_boarding_links\<close>\<close>

text \<open>
  The service link between rows \<open>k\<close> and \<open>k + 1\<close> of \<^verbatim>\<open>one_line_df\<close>, when
  \<^verbatim>\<open>number_of_route_links\<close> links have been made before it. The agency is
  \<^verbatim>\<open>one_line_df.agency_name[0]\<close>, the cell of the first row.
\<close>

definition service_link ::
  "func_lib \<Rightarrow> (string \<rightharpoonup> int) \<Rightarrow> int \<Rightarrow> frame_row list \<Rightarrow> frame_row \<Rightarrow> frame_row \<Rightarrow> int \<Rightarrow>
     error + link"
  where
  "service_link lib node_id_dict number_of_trips one_line_df row_k row_k1 number_of_route_links =
     (case node_id_dict (directed_service_stop_id row_k) of
        None \<Rightarrow> Inl KeyError
      | Some from_id \<Rightarrow>
     (case node_id_dict (directed_service_stop_id row_k1) of
        None \<Rightarrow> Inl KeyError
      | Some to_id \<Rightarrow>
     (case one_line_df of
        [] \<Rightarrow> Inl KeyError
      | first_row # _ \<Rightarrow>
          Inr \<lparr>link_id = 1000000 + number_of_route_links + 1,
               from_node_id = from_id,
               to_node_id = to_id,
               facility_type = convert_route_type_to_link_type lib (route_type row_k),
               dir_flag = 1,
               link_type = 1,
               link_type_name = ''service_links'',
               length_m = calculate_distance_from_geometry lib
                            (stop_lon row_k) (stop_lat row_k) (stop_lon row_k1) (stop_lat row_k1),
               lanes = number_of_trips,
               capacity = 999999,
               cost = 0,
               VDF_fftt1 = of_int (arrival_time row_k1 - arrival_time row_k),
               VDF_cap1 = number_of_trips * 999999,
               link_agency_name = agency_name first_row,
               link_directed_service_id = directed_service_id row_k\<rparr>)))"

text \<open>
  The loop \<^verbatim>\<open>for k in range(number_of_records - 1)\<close>, over the rows of \<^verbatim>\<open>one_line_df\<close> from row
  \<open>k\<close> on; \<open>n\<close> is \<^verbatim>\<open>number_of_route_links\<close>.
\<close>

fun line_links ::
  "func_lib \<Rightarrow> (string \<rightharpoonup> int) \<Rightarrow> int \<Rightarrow> frame_row list \<Rightarrow> frame_row list \<Rightarrow> int \<Rightarrow>
     error + link list"
  where
  "line_links lib node_id_dict number_of_trips one_line_df (row_k # row_k1 # rest) n =
     (case service_link lib node_id_dict number_of_trips one_line_df row_k row_k1 n of
        Inl e \<Rightarrow> Inl e
      | Inr l \<Rightarrow>
     (case line_links lib node_id_dict number_of_trips one_line_df (row_k1 # rest) (n + 1) of
        Inl e \<Rightarrow> Inl e
      | Inr ls \<Rightarrow> Inr (l # ls)))"
| "line_links lib node_id_dict number_of_trips one_line_df [row_k] n = Inr []"
| "line_links lib node_id_dict number_of_trips one_line_df [] n = Inr []"

text \<open>
  The loop over \<^verbatim>\<open>groupby('directed_service_id')\<close>. Its state is
  \<^verbatim>\<open>labeled_directed_service_list\<close>, \<^verbatim>\<open>frequency_dict\<close> and \<^verbatim>\<open>number_of_route_links\<close>; the result
  is the final \<^verbatim>\<open>frequency_dict\<close>, the final \<^verbatim>\<open>number_of_route_links\<close> and the links appended.
  \<^verbatim>\<open>route_df.trip_id.unique()[0]\<close> raises on an empty group.
\<close>

fun service_links ::
  "func_lib \<Rightarrow> (string \<rightharpoonup> int) \<Rightarrow> (string \<times> frame_row list) list \<Rightarrow> string list \<Rightarrow>
     (string \<rightharpoonup> int) \<Rightarrow> int \<Rightarrow> error + ((string \<rightharpoonup> int) \<times> int \<times> link list)"
  where
  "service_links lib node_id_dict [] labeled frequency_dict n = Inr (frequency_dict, n, [])"
| "service_links lib node_id_dict ((service_id, route_df) # groups) labeled
       frequency_dict n =
     (if service_id \<in> set labeled
      then service_links lib node_id_dict groups labeled frequency_dict n
      else
        (let number_of_trips = int (length (unique (map trip_id route_df)))
         in case unique (map trip_id route_df) of
              [] \<Rightarrow> Inl IndexError
            | first_trip # _ \<Rightarrow>
              (let one_line_df =
                     sort_key stop_sequence (filter (\<lambda>r. trip_id r = first_trip) route_df)
               in case line_links lib node_id_dict number_of_trips one_line_df one_line_df n of
                    Inl e \<Rightarrow> Inl e
                  | Inr ls \<Rightarrow>
                    (case service_links lib node_id_dict groups (labeled @ [service_id])
                            (frequency_dict(service_id \<mapsto> number_of_trips))
                            (n + int (length ls)) of
                       Inl e \<Rightarrow> Inl e
                     | Inr (frequency_dict', n', rest) \<Rightarrow> Inr (frequency_dict', n', ls @ rest)))))"

text \<open>
  The two boarding links of a service node, when \<^verbatim>\<open>number_of_sta2route_links\<close> boarding links
  have been made before them. The inbound link takes its \<^verbatim>\<open>link_id\<close> before the counter is
  increased, the outbound link after.
\<close>

definition boarding_link_pair ::
  "func_lib \<Rightarrow> GTFS2GMNS \<Rightarrow> (int \<rightharpoonup> string) \<Rightarrow> (int \<rightharpoonup> real) \<Rightarrow> (int \<rightharpoonup> real) \<Rightarrow>
     (string \<rightharpoonup> int) \<Rightarrow> int \<Rightarrow> node \<Rightarrow> int \<Rightarrow> error + link list"
  where
  "boarding_link_pair lib self directed_service_dict node_lon_dict node_lat_dict frequency_dict
       number_of_route_links row number_of_sta2route_links =
     (case node_lon_dict (physical_node_id row) of
        None \<Rightarrow> Inl KeyError
      | Some from_node_lon \<Rightarrow>
     (case node_lat_dict (physical_node_id row) of
        None \<Rightarrow> Inl KeyError
      | Some from_node_lat \<Rightarrow>
     (case directed_service_dict (node_id row) of
        None \<Rightarrow> Inl KeyError
      | Some service_name \<Rightarrow>
     (case frequency_dict (node_directed_service_id row) of
        None \<Rightarrow> Inl KeyError
      | Some frequency \<Rightarrow>
          if frequency = 0 then Inl ZeroDivisionError
          else
            (let inbound =
                   \<lparr>link_id = 1000000 + number_of_route_links + number_of_sta2route_links,
                    from_node_id = physical_node_id row,
                    to_node_id = node_id row,
                    facility_type = convert_route_type_to_link_type lib (node_route_type row),
                    dir_flag = 1,
                    link_type = 2,
                    link_type_name = ''boarding_links'',
                    length_m = calculate_distance_from_geometry lib
                                 from_node_lon from_node_lat (x_coord row) (y_coord row),
                    lanes = 1,
                    capacity = 999999,
                    cost = 0,
                    VDF_fftt1 =
                      min (0.5 * (of_int (period_end_time self - period_start_time self)
                                    / of_int frequency)) 10,
                    VDF_cap1 = 1 * 999999,
                    link_agency_name = node_agency_name row,
                    link_directed_service_id = service_name\<rparr>;
                 outbound =
                   inbound\<lparr>link_id :=
                             1000000 + number_of_route_links + (number_of_sta2route_links + 1),
                           from_node_id := node_id row,
                           to_node_id := physical_node_id row,
                           VDF_fftt1 := 1\<rparr>
             in Inr [inbound, outbound])))))"

fun boarding_links ::
  "func_lib \<Rightarrow> GTFS2GMNS \<Rightarrow> (int \<rightharpoonup> string) \<Rightarrow> (int \<rightharpoonup> real) \<Rightarrow> (int \<rightharpoonup> real) \<Rightarrow>
     (string \<rightharpoonup> int) \<Rightarrow> int \<Rightarrow> node list \<Rightarrow> int \<Rightarrow> error + link list"
  where
  "boarding_links lib self directed_service_dict node_lon_dict node_lat_dict frequency_dict
       number_of_route_links [] number_of_sta2route_links = Inr []"
| "boarding_links lib self directed_service_dict node_lon_dict node_lat_dict frequency_dict
       number_of_route_links (row # rows) number_of_sta2route_links =
     (case boarding_link_pair lib self directed_service_dict node_lon_dict node_lat_dict
             frequency_dict number_of_route_links row number_of_sta2route_links of
        Inl e \<Rightarrow> Inl e
      | Inr pair \<Rightarrow>
     (case boarding_links lib self directed_service_dict node_lon_dict node_lat_dict
             frequency_dict number_of_route_links rows (number_of_sta2route_links + 2) of
        Inl e \<Rightarrow> Inl e
      | Inr rest \<Rightarrow> Inr (pair @ rest)))"

definition create_service_boarding_links ::
  "func_lib \<Rightarrow> GTFS2GMNS \<Rightarrow> frame_row list \<Rightarrow> node list \<Rightarrow> link list \<Rightarrow> error + link list"
  where
  "create_service_boarding_links lib self directed_trip_route_stop_time_df node_df
       one_agency_link_list =
     (let node_id_dict = dict_zip (map node_name node_df) (map node_id node_df);
          directed_service_dict = dict_zip (map node_id node_df) (map node_name node_df);
          node_lon_dict = dict_zip (map node_id node_df) (map x_coord node_df);
          node_lat_dict = dict_zip (map node_id node_df) (map y_coord node_df)
      in case service_links lib node_id_dict
                (groupby directed_service_id directed_trip_route_stop_time_df) [] Map.empty 0 of
           Inl e \<Rightarrow> Inl e
         | Inr (frequency_dict, number_of_route_links, route_links) \<Rightarrow>
           (case boarding_links lib self directed_service_dict node_lon_dict node_lat_dict
                   frequency_dict number_of_route_links
                   (filter (\<lambda>row. node_id row \<noteq> physical_node_id row) node_df) 0 of
              Inl e \<Rightarrow> Inl e
            | Inr sta2route_links \<Rightarrow>
                Inr (one_agency_link_list @ route_links @ sta2route_links)))"

text \<open>
  For the properties: the links of the list \<open>ls\<close> are numbered \<open>a, a + 1, a + 2, ...\<close> in list
  order.
\<close>

definition numbered_from :: "int \<Rightarrow> link list \<Rightarrow> bool" where
  "numbered_from a ls \<longleftrightarrow> map link_id ls = map (\<lambda>j. a + int j) [0 ..< length ls]"

section \<open>Transfer links: \<^verbatim>\<open>create_transferring_links\<close>\<close>

definition transfer_link :: "int \<Rightarrow> node \<Rightarrow> node \<Rightarrow> real \<Rightarrow> link" where
  "transfer_link lid a b len =
     \<lparr>link_id = lid,
      from_node_id = node_id a,
      to_node_id = node_id b,
      facility_type = ''sta2sta'',
      dir_flag = 1,
      link_type = 3,
      link_type_name = ''transferring_links'',
      length_m = len,
      lanes = 1,
      capacity = 999999,
      cost = 60,
      VDF_fftt1 = (len / 1000) / 1,
      VDF_cap1 = 1 * 999999,
      link_agency_name = [],
      link_directed_service_id = []\<rparr>"

text \<open>The bounding box around the reference node (\<^verbatim>\<open>mask1 & mask2 & mask3 & mask4\<close>).\<close>

definition neighboring_node_df :: "node \<Rightarrow> node list \<Rightarrow> node list" where
  "neighboring_node_df ref physical =
     filter (\<lambda>q. x_coord q \<ge> x_coord ref - 0.003 \<and> x_coord q \<le> x_coord ref + 0.003
               \<and> y_coord q \<ge> y_coord ref - 0.003 \<and> y_coord q \<le> y_coord ref + 0.003) physical"

text \<open>
  The loop \<^verbatim>\<open>for j in range(len(neighboring_node_df))\<close> for the origin \<open>p\<close>, over the neighbours
  that are left, with the state \<^verbatim>\<open>labeled_list\<close>, \<^verbatim>\<open>count\<close> and \<^verbatim>\<open>number_of_transferring_links\<close>;
  the result is the list of links it appends.
\<close>

fun neighbor_loop ::
  "func_lib \<Rightarrow> node \<Rightarrow> node list \<Rightarrow> (string \<times> string) list \<Rightarrow> nat \<Rightarrow> int \<Rightarrow> link list" where
  "neighbor_loop lib p [] labeled_list count number_of_transferring_links = []"
| "neighbor_loop lib p (q # qs) labeled_list count number_of_transferring_links =
     (if count \<ge> 10 then []
      else if (node_route_id p, node_agency_name p) = (node_route_id q, node_agency_name q)
      then neighbor_loop lib p qs labeled_list count number_of_transferring_links
      else
        (let len = calculate_distance_from_geometry lib
                      (x_coord p) (y_coord p) (x_coord q) (y_coord q)
         in if len > 321.869 \<or> len < 1
            then neighbor_loop lib p qs labeled_list count number_of_transferring_links
            else if (node_route_id q, node_agency_name q) \<in> set labeled_list
            then neighbor_loop lib p qs labeled_list count number_of_transferring_links
            else transfer_link (number_of_transferring_links + 1) p q len
               # transfer_link (number_of_transferring_links + 1 + 1) q p len
               # neighbor_loop lib p qs
                   (labeled_list @ [(node_route_id q, node_agency_name q)]) (count + 1)
                   (number_of_transferring_links + 1 + 1)))"

text \<open>The links appended for one origin.\<close>

definition origin_links :: "func_lib \<Rightarrow> node list \<Rightarrow> node \<Rightarrow> int \<Rightarrow> link list" where
  "origin_links lib physical p number_of_transferring_links =
     neighbor_loop lib p (neighboring_node_df p physical) [] 0 number_of_transferring_links"

text \<open>The loop \<^verbatim>\<open>for i in range(len(physical_node_df))\<close> over the origins that are left.\<close>

fun origin_loop :: "func_lib \<Rightarrow> node list \<Rightarrow> node list \<Rightarrow> int \<Rightarrow> link list" where
  "origin_loop lib physical [] number_of_transferring_links = []"
| "origin_loop lib physical (p # ps) number_of_transferring_links =
     (let ls = origin_links lib physical p number_of_transferring_links
      in ls @ origin_loop lib physical ps (number_of_transferring_links + int (length ls)))"

text \<open>\<^verbatim>\<open>all_node_df[all_node_df.node_id == all_node_df.physical_node_id]\<close>\<close>

definition physical_nodes :: "node list \<Rightarrow> node list" where
  "physical_nodes all_node_df = filter (\<lambda>row. node_id row = physical_node_id row) all_node_df"

definition create_transferring_links :: "func_lib \<Rightarrow> node list \<Rightarrow> link list \<Rightarrow> link list" where
  "create_transferring_links lib all_node_df all_link_list =
     (let physical = physical_nodes all_node_df
      in all_link_list @ origin_loop lib physical physical 0)"


section \<open>Deduplication and assembly\<close>

text \<open>
  \<^verbatim>\<open>DataFrame.drop_duplicates(subset=..., keep='last')\<close>: a row stays exactly when no later row
  has the same value in the subset columns; the rows that stay keep their order.
\<close>

fun drop_duplicates_last :: "('a \<Rightarrow> 'k) \<Rightarrow> 'a list \<Rightarrow> 'a list" where
  "drop_duplicates_last key [] = []"
| "drop_duplicates_last key (x # xs) =
     (if key x \<in> key ` set xs then drop_duplicates_last key xs
      else x # drop_duplicates_last key xs)"

text \<open>The subset \<^verbatim>\<open>['from_node_id', 'to_node_id']\<close> used by \<^verbatim>\<open>main\<close>.\<close>

definition endpoints :: "link \<Rightarrow> int \<times> int" where
  "endpoints l = (from_node_id l, to_node_id l)"

definition dedup_links :: "link list \<Rightarrow> link list" where
  "dedup_links all_link_list = drop_duplicates_last endpoints all_link_list"

text \<open>
  \<^verbatim>\<open>main\<close>: the node table and the deduplicated link table (the two frames it returns, and the
  ones it writes to \<^verbatim>\<open>node.csv\<close> and \<^verbatim>\<open>link.csv\<close>). An exception in any step ends the run.
\<close>

definition main :: "func_lib \<Rightarrow> GTFS2GMNS \<Rightarrow> gtfs \<Rightarrow> error + (node list \<times> link list)" where
  "main lib self gtfs_dir =
     (case read_gtfs_data lib self gtfs_dir of
        Inl e \<Rightarrow> Inl e
      | Inr directed_trip_route_stop_time_df \<Rightarrow>
     (case create_nodes lib directed_trip_route_stop_time_df of
        Inl e \<Rightarrow> Inl e
      | Inr node_df \<Rightarrow>
     (case create_service_boarding_links lib self directed_trip_route_stop_time_df node_df [] of
        Inl e \<Rightarrow> Inl e
      | Inr all_link_list \<Rightarrow>
          Inr (node_df, dedup_links (create_transferring_links lib node_df all_link_list)))))"

section \<open>Sample feeds\<close>

text \<open>
  A sample instance of the helpers, for the worked examples. Terminal flags and labels follow
  the description of trip labeling in the specification (origin, destination, intermediate;
  one label per ordered chain of stops); the distance is a flat stand-in for the great-circle
  distance, in metres.
\<close>

definition sample_terminal_flag :: "stop_time list \<Rightarrow> flagged_stop_time list" where
  "sample_terminal_flag df =
     map (\<lambda>(i, r).
            \<lparr>trip_id = trip_id r, arrival_time = arrival_time r,
             departure_time = departure_time r, stop_id = stop_id r,
             stop_sequence = stop_sequence r,
             terminal_flag =
               (if i = 0 then ''origin''
                else if i + 1 = length df then ''destination'' else ''intermediate'')\<rparr>)
       (zip [0 ..< length df] df)"

definition sample_label :: "flagged_stop_time list \<Rightarrow> labeled_stop_time list" where
  "sample_label df =
     map (\<lambda>r.
            \<lparr>trip_id = trip_id r, arrival_time = arrival_time r,
             departure_time = departure_time r, stop_id = stop_id r,
             stop_sequence = stop_sequence r, terminal_flag = terminal_flag r,
             stop_sequence_label = concat (map (\<lambda>x. stop_id x @ '';'') df)\<rparr>)
       df"

definition sample_lib :: func_lib where
  "sample_lib =
     \<lparr>determine_terminal_flag = sample_terminal_flag,
      stop_sequence_label_func = sample_label,
      convert_route_type_to_node_type_p = (\<lambda>t. if t = 3 then ''bus_stop'' else ''station''),
      convert_route_type_to_node_type_s =
        (\<lambda>t. if t = 3 then ''bus_service_node'' else ''service_node''),
      convert_route_type_to_link_type = (\<lambda>t. if t = 3 then ''bus'' else ''rail''),
      calculate_distance_from_geometry =
        (\<lambda>x1 y1 x2 y2. 111320 * (\<bar>x1 - x2\<bar> + \<bar>y1 - y2\<bar>))\<rparr>"

text \<open>The window \<^verbatim>\<open>0700_0800\<close>, in minutes.\<close>

definition window_0700_0800 :: GTFS2GMNS where
  "window_0700_0800 = \<lparr>period_start_time = 420, period_end_time = 480\<rparr>"

text \<open>
  One bus line with one trip over two stops, A at (0.000, 0.000) and B at (0.001, 0.000),
  reached at the two given times.
\<close>

definition two_stop_feed :: "string \<Rightarrow> string \<Rightarrow> gtfs" where
  "two_stop_feed at_A at_B =
     \<lparr>agency_txt = [''Metro''],
      stops_txt =
        [\<lparr>stops_stop_id = ''A'', stops_stop_name = ''Alpha'', stops_stop_lat = 0,
          stops_stop_lon = 0\<rparr>,
         \<lparr>stops_stop_id = ''B'', stops_stop_name = ''Beta'', stops_stop_lat = 0,
          stops_stop_lon = 0.001\<rparr>],
      routes_txt =
        [\<lparr>routes_route_id = ''R1'', routes_route_short_name = ''1'',
          routes_route_long_name = ''Line 1'', routes_route_type = 3\<rparr>],
      trips_has_direction_id = True,
      trips_txt = [\<lparr>trips_trip_id = ''T1'', trips_route_id = ''R1'', trips_direction_id = 0\<rparr>],
      stop_times_txt =
        [\<lparr>st_trip_id = ''T1'', st_arrival_time = Some at_A, st_departure_time = Some at_A,
          st_stop_id = ''A'', st_stop_sequence = 1\<rparr>,
         \<lparr>st_trip_id = ''T1'', st_arrival_time = Some at_B, st_departure_time = Some at_B,
          st_stop_id = ''B'', st_stop_sequence = 2\<rparr>]\<rparr>"

text \<open>The single trip starts at 06:00, before the window.\<close>

definition feed_before_window :: gtfs where
  "feed_before_window = two_stop_feed ''06:00:00'' ''06:10:00''"

text \<open>The single trip starts at 07:10, inside the window.\<close>

definition feed_in_window :: gtfs where
  "feed_in_window = two_stop_feed ''07:10:00'' ''07:20:00''"

text \<open>The enriched frame of \<^const>\<open>feed_in_window\<close>.\<close>

definition frame_in_window :: "frame_row list" where
  "frame_in_window =
     [\<lparr>trip_id = ''T1'', arrival_time = 430, departure_time = Some 430, stop_id = ''A'',
       stop_sequence = 1, terminal_flag = ''origin'', stop_sequence_label = ''A;B;'',
       route_id = ''R1'', direction_id = ''2'', directed_route_id = ''R1.2'', route_type = 3,
       directed_route_stop_id = ''R1.2.A'', directed_service_stop_id = ''R1.2.A:A;B;'',
       directed_service_id = ''R1.2:A;B;'', stop_lat = 0, stop_lon = 0,
       agency_name = ''Metro''\<rparr>,
      \<lparr>trip_id = ''T1'', arrival_time = 440, departure_time = Some 440, stop_id = ''B'',
       stop_sequence = 2, terminal_flag = ''destination'', stop_sequence_label = ''A;B;'',
       route_id = ''R1'', direction_id = ''2'', directed_route_id = ''R1.2'', route_type = 3,
       directed_route_stop_id = ''R1.2.B'', directed_service_stop_id = ''R1.2.B:A;B;'',
       directed_service_id = ''R1.2:A;B;'', stop_lat = 0, stop_lon = 0.001,
       agency_name = ''Metro''\<rparr>]"

text \<open>The node table of \<^const>\<open>frame_in_window\<close>.\<close>

definition nodes_in_window :: "node list" where
  "nodes_in_window =
     [\<lparr>node_name = ''A'', node_id = 1000001, physical_node_id = 1000001,
         x_coord = 0, y_coord = 0, node_route_type = 3,
         node_route_id = ''R1'', node_type = ''bus_stop'',
         node_directed_route_id = [], node_directed_service_id = [],
         node_agency_name = ''Metro'', node_terminal_flag = ''origin''\<rparr>,
      \<lparr>node_name = ''B'', node_id = 1000002, physical_node_id = 1000002,
         x_coord = 0.001, y_coord = 0, node_route_type = 3,
         node_route_id = ''R1'', node_type = ''bus_stop'',
         node_directed_route_id = [], node_directed_service_id = [],
         node_agency_name = ''Metro'',
         node_terminal_flag = ''destination''\<rparr>,
      \<lparr>node_name = ''R1.2.A:A;B;'', node_id = 1500001,
         physical_node_id = 1000001, x_coord = - 0.0001,
         y_coord = - 0.0001, node_route_type = 3,
         node_route_id = ''R1'', node_type = ''bus_service_node'',
         node_directed_route_id = ''R1.2'',
         node_directed_service_id = ''R1.2:A;B;'',
         node_agency_name = ''Metro'', node_terminal_flag = ''origin''\<rparr>,
      \<lparr>node_name = ''R1.2.B:A;B;'', node_id = 1500002,
         physical_node_id = 1000002, x_coord = 0.0009,
         y_coord = - 0.0001, node_route_type = 3,
         node_route_id = ''R1'', node_type = ''bus_service_node'',
         node_directed_route_id = ''R1.2'',
         node_directed_service_id = ''R1.2:A;B;'',
         node_agency_name = ''Metro'',
         node_terminal_flag = ''destination''\<rparr>]"

text \<open>
  Stop times of three trips: T1 starts at 07:00 (minute 420), T2 at 08:00 (minute 480), and T3
  at 06:59 with its second stop at 07:10.
\<close>

definition visit :: "string \<Rightarrow> int \<Rightarrow> string \<Rightarrow> int \<Rightarrow> stop_time" where
  "visit t a s k =
     \<lparr>trip_id = t, arrival_time = a, departure_time = Some a, stop_id = s, stop_sequence = k\<rparr>"

definition boundary_times :: "stop_time list" where
  "boundary_times =
     [visit ''T1'' 420 ''A'' 1, visit ''T1'' 430 ''B'' 2,
      visit ''T2'' 480 ''A'' 1, visit ''T2'' 490 ''B'' 2,
      visit ''T3'' 419 ''A'' 1, visit ''T3'' 430 ''B'' 2]"

text \<open>A trip whose route is not in \<^verbatim>\<open>routes.txt\<close>, and the one route that is.\<close>

definition orphan_trip :: trip where
  "orphan_trip =
     \<lparr>trip_trip_id = ''T9'', trip_route_id = ''R2'', trip_direction_id = ''2'',
      trip_directed_route_id = ''R2.2''\<rparr>"

definition only_route :: routes_row where
  "only_route =
     \<lparr>routes_route_id = ''R1'', routes_route_short_name = ''1'',
      routes_route_long_name = ''Line 1'', routes_route_type = 3\<rparr>"

text \<open>A row of \<^verbatim>\<open>stop_times.txt\<close> with an arrival time and an empty departure cell.\<close>

definition row_without_departure :: stop_times_row where
  "row_without_departure =
     \<lparr>st_trip_id = ''T1'', st_arrival_time = Some ''07:10:00'', st_departure_time = None,
      st_stop_id = ''A'', st_stop_sequence = 1\<rparr>"










section \<open>Properties\<close>

subsection \<open>Unfolding the recursive helpers\<close>

lemma day_of_month_this: "d < days_in_month y m \<Longrightarrow> day_of_month y m d = d + 1"
  by (simp add: day_of_month.simps)

lemma day_of_month_next:
  "\<not> d < days_in_month y m \<Longrightarrow>
     day_of_month y m d =
       day_of_month (if m = 12 then y + 1 else y) (if m = 12 then 1 else m + 1)
         (d - days_in_month y m)"
  by (subst day_of_month.simps) simp

lemma str_nat_digit: "n < 10 \<Longrightarrow> str_nat n = [digit_char n]"
  by (simp add: str_nat.simps)

lemma str_nat_more:
  "\<not> n < 10 \<Longrightarrow> str_nat n = str_nat (n div 10) @ [digit_char (n mod 10)]"
  by (subst str_nat.simps) simp

lemmas time_eval =
  time_to_minutes_def to_timedelta_def parse_nat_def is_digit_def digit_value_def plus_tt_def
  minutes_of_def day_of_month_this day_of_month_next days_in_month_def is_leap_year_def

subsection \<open>Trips and routes\<close>

text \<open>
  The merged frame has one row per trip when every trip's route occurs exactly once in the
  routes table; a trip whose route is not in the routes table is in no merged row.
\<close>

lemma trip_route_merge_count:
  "(\<And>t. t \<in> set trip_df \<Longrightarrow>
       length (filter (\<lambda>r. routes_route_id r = trip_route_id t) route_df) = 1) \<Longrightarrow>
     length (trip_route_merge trip_df route_df) = length trip_df"
proof (induction trip_df)
  case Nil
  show ?case by (simp add: trip_route_merge_def merge_def)
next
  case (Cons t trip_df)
  have "length (trip_route_merge (t # trip_df) route_df) =
          length (filter (\<lambda>r. routes_route_id r = trip_route_id t) route_df)
          + length (trip_route_merge trip_df route_df)"
    by (simp add: trip_route_merge_def merge_def)
  with Cons show ?case by simp
qed

lemma trip_route_merge_orphan:
  assumes "trip_route_id t \<notin> routes_route_id ` set route_df"
  shows "t \<notin> fst ` set (trip_route_merge trip_df route_df)"
proof
  assume "t \<in> fst ` set (trip_route_merge trip_df route_df)"
  then obtain r where "r \<in> set route_df" "routes_route_id r = trip_route_id t"
    by (auto simp: trip_route_merge_def merge_def)
  then have "trip_route_id t \<in> routes_route_id ` set route_df"
    by (metis imageI)
  with assms show False by simp
qed

text \<open>
  C1. The claim: the merged trips-routes frame has as many rows as the trips table, also when
  a trip's route is not in the routes table. The code calls \<^verbatim>\<open>pd.merge\<close> without
  \<^verbatim>\<open>how='left'\<close>, which is an inner join: for the one trip \<^const>\<open>orphan_trip\<close> on route R2 and
  the one route R1, the merged frame is empty, while the trips table has one row.
\<close>

theorem orphan_trip_dropped:
  "trip_route_merge [orphan_trip] [only_route] = []
   \<and> length (trip_route_merge [orphan_trip] [only_route]) \<noteq> length [orphan_trip]"
  by (simp add: trip_route_merge_def merge_def orphan_trip_def only_route_def)

subsection \<open>Stop times without a time\<close>

lemma drop_blank_times_iff:
  "r \<in> set (drop_blank_times df) \<longleftrightarrow>
     r \<in> set df \<and> st_arrival_time r \<noteq> None \<and> st_arrival_time r \<noteq> Some []
     \<and> st_arrival_time r \<noteq> Some '' '' \<and> st_departure_time r \<noteq> Some []
     \<and> st_departure_time r \<noteq> Some '' ''"
  by (auto simp: drop_blank_times_def)

lemma drop_blank_times_arrival:
  "r \<in> set (drop_blank_times df) \<Longrightarrow> \<exists>s. st_arrival_time r = Some s"
  by (auto simp: drop_blank_times_iff)

text \<open>
  C8. The claim: every row whose arrival or departure time is null, empty or a single blank is
  removed. The code drops missing values of \<^verbatim>\<open>arrival_time\<close> only: the row
  \<^const>\<open>row_without_departure\<close>, with an arrival time and a missing departure time, stays, and
  is converted to a stop time with a missing departure time.
\<close>

theorem missing_departure_kept:
  "st_departure_time row_without_departure = None
   \<and> drop_blank_times [row_without_departure] = [row_without_departure]
   \<and> convert_times (drop_blank_times [row_without_departure]) =
       Inr [\<lparr>trip_id = ''T1'', arrival_time = 430, departure_time = None, stop_id = ''A'',
             stop_sequence = 1\<rparr>]"
  by (simp add: drop_blank_times_def row_without_departure_def convert_times_def
      arrival_minutes_def departure_minutes_def time_eval)

subsection \<open>Times as minutes\<close>

lemma clock_days:
  fixes h m sec :: nat
  assumes "m < 60" "sec < 60"
  shows "(3600 * h + 60 * m + sec) div 86400 = h div 24"
proof (rule div_nat_eqI)
  have a: "24 * (h div 24) \<le> h" by simp
  have b: "h < 24 * (h div 24) + 24"
    using mod_less_divisor [of 24 h] mult_div_mod_eq [of 24 h] by linarith
  show "86400 * (h div 24) \<le> 3600 * h + 60 * m + sec"
    using a by linarith
  show "3600 * h + 60 * m + sec < 86400 * Suc (h div 24)"
    using b assms by simp
qed

lemma clock_hours:
  fixes h m sec :: nat
  assumes "m < 60" "sec < 60"
  shows "(3600 * h + 60 * m + sec) div 3600 = h"
  by (rule div_nat_eqI) (use assms in simp_all)

lemma clock_minutes:
  fixes h m sec :: nat
  assumes "m < 60" "sec < 60"
  shows "(3600 * h + 60 * m + sec) div 60 mod 60 = m"
proof -
  have "(3600 * h + 60 * m + sec) div 60 = 60 * h + m"
    by (rule div_nat_eqI) (use assms in simp_all)
  then show ?thesis using assms by simp
qed

lemma split_on_append:
  "c \<notin> set a \<Longrightarrow> split_on c (a @ c # b) = a # split_on c b"
  by (induction a) auto

lemma split_on_none: "c \<notin> set a \<Longrightarrow> split_on c a = [a]"
  by (induction a) auto

lemma colon_not_digit: "\<not> is_digit CHR '':''"
  by (simp add: is_digit_def)

lemma parse_nat_no_colon: "parse_nat s = Some n \<Longrightarrow> CHR '':'' \<notin> set s"
proof
  assume p: "parse_nat s = Some n" and c: "CHR '':'' \<in> set s"
  from p have "list_all is_digit s"
    by (simp add: parse_nat_def split: if_splits)
  with c have "is_digit CHR '':''"
    by (simp add: list_all_iff)
  then show False
    by (simp add: colon_not_digit)
qed

lemma to_timedelta_clock:
  assumes "parse_nat hs = Some h" "parse_nat ms = Some m" "parse_nat ss = Some sec"
  shows "to_timedelta (hs @ CHR '':'' # ms @ CHR '':'' # ss) = Inr (3600 * h + 60 * m + sec)"
proof -
  have "split_on CHR '':'' (hs @ CHR '':'' # (ms @ CHR '':'' # ss)) = [hs, ms, ss]"
    using assms by (simp add: split_on_append split_on_none parse_nat_no_colon)
  then show ?thesis
    using assms by (simp add: to_timedelta_def)
qed

lemma day_of_month_january: "d < 31 \<Longrightarrow> day_of_month 2021 1 d = d + 1"
  by (simp add: day_of_month_this days_in_month_def)

lemma plus_tt_first_month:
  assumes "h < 744" "m < 60" "sec < 60"
  shows "plus_tt (3600 * h + 60 * m + sec) =
           Inr \<lparr>day = h div 24 + 1, hour = h mod 24, minute = m\<rparr>"
proof -
  have "h div 24 < 31"
    using assms(1) by simp
  then have "day_of_month 2021 1 (h div 24) = h div 24 + 1"
    by (rule day_of_month_january)
  moreover have "\<not> (1609459200 + int (3600 * h + 60 * m + sec)) * 1000000000 > 2 ^ 63 - 1"
  proof -
    have "int (3600 * h + 60 * m + sec) \<le> 2678399"
      using assms by linarith
    then show ?thesis
      by simp
  qed
  ultimately show ?thesis
    using assms(2,3) by (simp add: plus_tt_def clock_days clock_hours clock_minutes)
qed

text \<open>
  C9. The claim: a clock text \<open>HH:MM:SS\<close>, hours 24 and more included, is converted to
  \<open>hour * 60 + minute + 1440 * day_offset\<close> minutes, where \<open>day_offset\<close> is the number of
  whole days in the duration. The program takes \<open>day_offset\<close> from the day of the month of
  2021-01-01 plus the duration, so the claim holds for durations shorter than the 31 days of
  January only: 744:00:00 is 2021-02-01 00:00, day 1 of its month, and converts to 0 minutes.
\<close>

theorem month_wrap_counterexample:
  "time_to_minutes ''744:00:00'' = Inr 0
   \<and> time_to_minutes ''744:00:00'' \<noteq> Inr (int ((744 mod 24) * 60 + 0 + 1440 * (744 div 24)))"
  by (simp add: time_eval)

text \<open>
  C9, amended. For a clock text \<open>H:M:S\<close> with \<open>H < 744\<close> (less than 31 days), \<open>M < 60\<close> and
  \<open>S < 60\<close> the conversion gives \<open>(H mod 24) * 60 + M + 1440 * (H div 24)\<close> minutes, which is
  \<open>60 * H + M\<close>; the witness is the text 25:10:00, which gives 1510.
\<close>

theorem clock_text_minutes:
  assumes "parse_nat hs = Some h" "parse_nat ms = Some m" "parse_nat ss = Some sec"
    and "h < 744" "m < 60" "sec < 60"
  shows "time_to_minutes (hs @ '':'' @ ms @ '':'' @ ss) =
           Inr (int (h mod 24) * 60 + int m + 1440 * int (h div 24))
         \<and> int (h mod 24) * 60 + int m + 1440 * int (h div 24) = 60 * int h + int m"
proof
  show "time_to_minutes (hs @ '':'' @ ms @ '':'' @ ss) =
          Inr (int (h mod 24) * 60 + int m + 1440 * int (h div 24))"
    using assms
    by (simp add: time_to_minutes_def to_timedelta_clock plus_tt_first_month minutes_of_def)
  have "int h = 24 * int (h div 24) + int (h mod 24)"
    using mult_div_mod_eq [of 24 h] by linarith
  then show "int (h mod 24) * 60 + int m + 1440 * int (h div 24) = 60 * int h + int m"
    by simp
qed

theorem clock_text_minutes_witness:
  "parse_nat ''25'' = Some 25 \<and> parse_nat ''10'' = Some 10 \<and> parse_nat ''00'' = Some 0
   \<and> time_to_minutes ''25:10:00'' = Inr 1510"
proof -
  have p: "parse_nat ''25'' = Some 25" "parse_nat ''10'' = Some 10" "parse_nat ''00'' = Some 0"
    by (simp_all add: parse_nat_def is_digit_def digit_value_def)
  from clock_text_minutes [OF p] p show ?thesis
    by simp
qed

subsection \<open>Trips in the analysis window\<close>

lemma min_arrival_code:
  "t \<in> trip_id ` set df \<Longrightarrow>
     min_arrival df t = min_list (map arrival_time (filter (\<lambda>r. trip_id r = t) df))"
proof -
  assume "t \<in> trip_id ` set df"
  then have ne: "map arrival_time (filter (\<lambda>r. trip_id r = t) df) \<noteq> []"
    by (auto simp: filter_empty_conv)
  have "set (map arrival_time (filter (\<lambda>r. trip_id r = t) df))
          = arrival_time ` {r \<in> set df. trip_id r = t}"
    by auto
  with min_list_Min [OF ne] show ?thesis
    by (simp add: min_arrival_def)
qed

lemma in_window_trip_rows:
  assumes "t \<in> trip_id ` set df"
  shows "in_window self (trip_rows df t) \<longleftrightarrow>
           period_start_time self \<le> min_arrival df t \<and> min_arrival df t \<le> period_end_time self"
proof -
  from assms obtain r where "r \<in> set (trip_rows df t)"
    by (auto simp: trip_rows_def)
  then have ne: "map arrival_time (trip_rows df t) \<noteq> []"
    by auto
  have "set (map arrival_time (trip_rows df t)) = arrival_time ` {r \<in> set df. trip_id r = t}"
    by (auto simp: trip_rows_def)
  with min_list_Min [OF ne] have "min_list (map arrival_time (trip_rows df t)) = min_arrival df t"
    by (simp add: min_arrival_def)
  then show ?thesis
    by (auto simp: in_window_def Let_def)
qed

lemma sorted_groups:
  "map (\<lambda>(t, g). sort_key stop_sequence g) (groupby trip_id df) =
     map (trip_rows df) (sort (remdups (map trip_id df)))"
  by (simp add: groupby_def trip_rows_def)

lemma input_list_set:
  "set (input_list self df) =
     {g. \<exists>t \<in> trip_id ` set df. g = trip_rows df t \<and> in_window self g}"
  unfolding input_list_def sorted_groups by auto

text \<open>
  C7. Trip labeling keeps a trip if and only if the earliest arrival time among its rows lies
  in \<open>[period_start, period_end]\<close>, both bounds included: every group in \<^verbatim>\<open>input_list\<close> is the
  sorted group of a trip of the table, and the group of a trip is in \<^verbatim>\<open>input_list\<close> exactly
  when \<open>period_start \<le> min_arrival \<le> period_end\<close>. In the witness T1 starts at
  \<open>period_start\<close> and T2 at \<open>period_end\<close> and both are kept; T3 starts one minute early and is
  left out although its second stop is inside the window.
\<close>

theorem window_filter_inclusive:
  "(\<forall>g \<in> set (input_list self df). \<exists>t \<in> trip_id ` set df. g = trip_rows df t)
   \<and> (\<forall>t \<in> trip_id ` set df.
         trip_rows df t \<in> set (input_list self df) \<longleftrightarrow>
           period_start_time self \<le> min_arrival df t \<and> min_arrival df t \<le> period_end_time self)"
proof (intro conjI ballI)
  fix g
  assume "g \<in> set (input_list self df)"
  then show "\<exists>t \<in> trip_id ` set df. g = trip_rows df t"
    by (auto simp: input_list_set)
next
  fix t
  assume t: "t \<in> trip_id ` set df"
  have "trip_rows df t \<in> set (input_list self df) \<longleftrightarrow> in_window self (trip_rows df t)"
  proof
    assume "trip_rows df t \<in> set (input_list self df)"
    then show "in_window self (trip_rows df t)"
      by (auto simp: input_list_set)
  next
    assume "in_window self (trip_rows df t)"
    with t show "trip_rows df t \<in> set (input_list self df)"
      unfolding input_list_set by blast
  qed
  with in_window_trip_rows [OF t]
  show "trip_rows df t \<in> set (input_list self df) \<longleftrightarrow>
          period_start_time self \<le> min_arrival df t \<and> min_arrival df t \<le> period_end_time self"
    by simp
qed

lemma boundary_trip_ids: "trip_id ` set boundary_times = {''T1'', ''T2'', ''T3''}"
  by (auto simp: boundary_times_def visit_def)

lemma boundary_min_arrival:
  "min_arrival boundary_times ''T1'' = 420"
  "min_arrival boundary_times ''T2'' = 480"
  "min_arrival boundary_times ''T3'' = 419"
  by (simp_all add: min_arrival_code boundary_trip_ids) (simp_all add: boundary_times_def visit_def)

theorem window_filter_inclusive_witness:
  "trip_rows boundary_times ''T1'' \<in> set (input_list window_0700_0800 boundary_times)
   \<and> trip_rows boundary_times ''T2'' \<in> set (input_list window_0700_0800 boundary_times)
   \<and> trip_rows boundary_times ''T3'' \<notin> set (input_list window_0700_0800 boundary_times)"
  using window_filter_inclusive [of window_0700_0800 boundary_times]
  by (simp add: boundary_trip_ids boundary_min_arrival window_0700_0800_def)

subsection \<open>An empty window\<close>

lemma no_trip_in_window:
  assumes "\<forall>t \<in> trip_id ` set df.
             \<not> (period_start_time self \<le> min_arrival df t \<and> min_arrival df t \<le> period_end_time self)"
  shows "input_list self df = []"
proof -
  have "set (input_list self df) = {}"
    using assms by (auto simp: input_list_set in_window_trip_rows)
  then show ?thesis by simp
qed

lemma concat_of_no_trip:
  "input_list self df = [] \<Longrightarrow> stop_time_df_with_terminal lib self df = Inl ValueError"
  by (simp add: stop_time_df_with_terminal_def pd_concat_def)

lemma read_gtfs_data_no_trip:
  assumes "convert_times (drop_blank_times (stop_times_txt gtfs_dir)) = Inr df"
    and "input_list self df = []"
  shows "\<exists>e. read_gtfs_data lib self gtfs_dir = Inl e"
  using assms
  by (auto simp: read_gtfs_data_def concat_of_no_trip split: list.splits sum.splits)

text \<open>
  C2, amended. If no trip's earliest arrival time lies in the window, \<^verbatim>\<open>input_list\<close> is empty,
  \<^verbatim>\<open>pd.concat(output_list)\<close> raises \<^verbatim>\<open>ValueError\<close>, and the run ends with an exception:
  \<^verbatim>\<open>read_gtfs_data\<close> and \<^verbatim>\<open>main\<close> return no tables. (Nothing in \<^verbatim>\<open>gtfs2gmns.py\<close> catches an
  exception or tests for an empty frame.)
\<close>

theorem empty_window_aborts:
  assumes "convert_times (drop_blank_times (stop_times_txt gtfs_dir)) = Inr df"
    and "\<forall>t \<in> trip_id ` set df.
           \<not> (period_start_time self \<le> min_arrival df t \<and> min_arrival df t \<le> period_end_time self)"
  shows "stop_time_df_with_terminal lib self df = Inl ValueError
         \<and> (\<exists>e. read_gtfs_data lib self gtfs_dir = Inl e)
         \<and> (\<exists>e. main lib self gtfs_dir = Inl e)"
proof -
  have empty: "input_list self df = []"
    using assms(2) by (rule no_trip_in_window)
  then have one: "stop_time_df_with_terminal lib self df = Inl ValueError"
    by (rule concat_of_no_trip)
  obtain e where two: "read_gtfs_data lib self gtfs_dir = Inl e"
    using read_gtfs_data_no_trip [OF assms(1) empty] by blast
  then have "main lib self gtfs_dir = Inl e"
    by (simp add: main_def)
  with one two show ?thesis by blast
qed

lemma before_window_times:
  "convert_times (drop_blank_times (stop_times_txt feed_before_window)) =
     Inr [visit ''T1'' 360 ''A'' 1, visit ''T1'' 370 ''B'' 2]"
  by (simp add: feed_before_window_def two_stop_feed_def drop_blank_times_def convert_times_def
      arrival_minutes_def departure_minutes_def visit_def time_eval)

lemma before_window_min_arrival:
  "min_arrival [visit ''T1'' 360 ''A'' 1, visit ''T1'' 370 ''B'' 2] ''T1'' = 360"
  by (simp add: min_arrival_code visit_def)

theorem empty_window_aborts_witness:
  "convert_times (drop_blank_times (stop_times_txt feed_before_window)) =
     Inr [visit ''T1'' 360 ''A'' 1, visit ''T1'' 370 ''B'' 2]
   \<and> min_arrival [visit ''T1'' 360 ''A'' 1, visit ''T1'' 370 ''B'' 2] ''T1'' = 360
   \<and> (\<exists>e. main sample_lib window_0700_0800 feed_before_window = Inl e)"
proof -
  have out: "\<forall>t \<in> trip_id ` set [visit ''T1'' 360 ''A'' 1, visit ''T1'' 370 ''B'' 2].
     \<not> (period_start_time window_0700_0800
            \<le> min_arrival [visit ''T1'' 360 ''A'' 1, visit ''T1'' 370 ''B'' 2] t
         \<and> min_arrival [visit ''T1'' 360 ''A'' 1, visit ''T1'' 370 ''B'' 2] t
            \<le> period_end_time window_0700_0800)"
    by (simp add: visit_def window_0700_0800_def min_arrival_code)
  from empty_window_aborts [OF before_window_times out, of sample_lib]
    before_window_times before_window_min_arrival
  show ?thesis by blast
qed

lemma feed_before_window_tables:
  "repair_quotes (routes_txt feed_before_window)
     (map (recode_direction (trips_has_direction_id feed_before_window))
        (trips_txt feed_before_window)) =
   Inr (routes_txt feed_before_window,
        [\<lparr>trip_trip_id = ''T1'', trip_route_id = ''R1'', trip_direction_id = ''2'',
          trip_directed_route_id = ''R1.2''\<rparr>])"
  by (simp add: feed_before_window_def two_stop_feed_def repair_quotes_def starts_with_quote_def
      recode_direction_def str_int_def str_nat_digit digit_char_def Let_def)

text \<open>
  C2. The claim: with no trip in the window the run does not abort and produces two empty
  tables. For the feed whose only trip starts at 06:00 and the window 07:00 to 08:00 the run
  ends with the \<^verbatim>\<open>ValueError\<close> of \<^verbatim>\<open>pd.concat\<close>.
\<close>

theorem empty_window_counterexample:
  "main sample_lib window_0700_0800 feed_before_window = Inl ValueError
   \<and> main sample_lib window_0700_0800 feed_before_window \<noteq> Inr ([], [])"
proof -
  have "input_list window_0700_0800 [visit ''T1'' 360 ''A'' 1, visit ''T1'' 370 ''B'' 2] = []"
    by (rule no_trip_in_window) (simp add: visit_def window_0700_0800_def min_arrival_code)
  then have "stop_time_df_with_terminal sample_lib window_0700_0800
               [visit ''T1'' 360 ''A'' 1, visit ''T1'' 370 ''B'' 2] = Inl ValueError"
    by (rule concat_of_no_trip)
  moreover have "agency_txt feed_before_window = [''Metro'']"
    by (simp add: feed_before_window_def two_stop_feed_def)
  ultimately have "read_gtfs_data sample_lib window_0700_0800 feed_before_window = Inl ValueError"
    by (simp add: read_gtfs_data_def feed_before_window_tables before_window_times)
  then show ?thesis
    by (simp add: main_def)
qed

subsection \<open>Link numbers\<close>

text \<open>
  In every run of \<^verbatim>\<open>create_service_boarding_links\<close> that starts from an empty link list, the
  service links are numbered from 1000001 and the boarding links from
  \<open>1000000 + number_of_route_links\<close>, two per service node (lemma \<open>link_numbers\<close>). So the
  first boarding link has the number of the last service link whenever there is a service
  link.
\<close>

lemma numbered_from_Nil: "numbered_from a []"
  by (simp add: numbered_from_def)

lemma numbered_from_Cons:
  "numbered_from a (l # ls) \<longleftrightarrow> link_id l = a \<and> numbered_from (a + 1) ls"
  by (simp add: numbered_from_def map_upt_Suc algebra_simps del: upt_Suc)

lemma numbered_from_append:
  "numbered_from a (xs @ ys) \<longleftrightarrow> numbered_from a xs \<and> numbered_from (a + int (length xs)) ys"
proof (induction xs arbitrary: a)
  case Nil
  show ?case by (simp add: numbered_from_Nil)
next
  case (Cons x xs)
  show ?case
    by (simp add: numbered_from_Cons Cons.IH algebra_simps)
qed

lemma service_link_id:
  "service_link lib d t df a b n = Inr l \<Longrightarrow> link_id l = 1000000 + n + 1"
  by (auto simp: service_link_def split: option.splits list.splits)

lemma line_links_numbered:
  "line_links lib d t df rows n = Inr ls \<Longrightarrow> numbered_from (1000000 + n + 1) ls"
proof (induction lib d t df rows n arbitrary: ls rule: line_links.induct)
  case (1 lib d t df a b rest n)
  from "1.prems" obtain l ls' where l: "service_link lib d t df a b n = Inr l"
    and ls': "line_links lib d t df (b # rest) (n + 1) = Inr ls'" and ls: "ls = l # ls'"
    by (auto split: sum.splits)
  from ls' have "numbered_from (1000000 + (n + 1) + 1) ls'"
    by (rule "1.IH" [OF l])
  with service_link_id [OF l] show ?case
    by (simp add: ls numbered_from_Cons algebra_simps)
next
  case (2 lib d t df a n)
  then show ?case by (simp add: numbered_from_Nil)
next
  case (3 lib d t df n)
  then show ?case by (simp add: numbered_from_Nil)
qed

lemma service_links_numbered:
  "service_links lib d groups labeled f n = Inr (f', n', ls) \<Longrightarrow>
     n' = n + int (length ls) \<and> numbered_from (1000000 + n + 1) ls"
proof (induction lib d groups labeled f n arbitrary: f' n' ls rule: service_links.induct)
  case (1 lib d labeled f n)
  then show ?case by (simp add: numbered_from_Nil)
next
  case (2 lib d sid route_df groups labeled f n)
  show ?case
  proof (cases "sid \<in> set labeled")
    case True
    with "2.prems" have "service_links lib d groups labeled f n = Inr (f', n', ls)"
      by simp
    then show ?thesis by (rule "2.IH"(1) [OF True])
  next
    case False
    let ?t = "int (length (unique (map trip_id route_df)))"
    from False "2.prems" obtain first_trip others where
      u: "unique (map trip_id route_df) = first_trip # others"
      by (auto simp: Let_def split: list.splits)
    let ?one = "sort_key stop_sequence (filter (\<lambda>r. trip_id r = first_trip) route_df)"
    from False "2.prems" u obtain xs rest where
      xs: "line_links lib d ?t ?one ?one n = Inr xs"
      and rest: "service_links lib d groups (labeled @ [sid]) (f(sid \<mapsto> ?t)) (n + int (length xs))
                   = Inr (f', n', rest)"
      and ls: "ls = xs @ rest"
      by (auto simp: Let_def split: sum.splits)
    have "n' = n + int (length xs) + int (length rest)
            \<and> numbered_from (1000000 + (n + int (length xs)) + 1) rest"
      using "2.IH"(2) [OF False refl u refl xs rest] .
    with line_links_numbered [OF xs] show ?thesis
      by (simp add: ls numbered_from_append algebra_simps)
  qed
qed

lemma boarding_link_pair_ids:
  "boarding_link_pair lib self dsd lon lat f N row s = Inr pair \<Longrightarrow>
     map link_id pair = [1000000 + N + s, 1000000 + N + s + 1]"
  by (auto simp: boarding_link_pair_def Let_def split: option.splits if_splits)

lemma boarding_links_numbered:
  "boarding_links lib self dsd lon lat f N rows s = Inr ls \<Longrightarrow>
     length ls = 2 * length rows \<and> numbered_from (1000000 + N + s) ls"
proof (induction rows arbitrary: s ls)
  case Nil
  then show ?case by (simp add: numbered_from_Nil)
next
  case (Cons row rows)
  from Cons.prems obtain pair rest where
    pair: "boarding_link_pair lib self dsd lon lat f N row s = Inr pair"
    and rest: "boarding_links lib self dsd lon lat f N rows (s + 2) = Inr rest"
    and ls: "ls = pair @ rest"
    by (auto split: sum.splits)
  from boarding_link_pair_ids [OF pair] obtain a b where
    ab: "pair = [a, b]" "link_id a = 1000000 + N + s" "link_id b = 1000000 + N + s + 1"
    by (cases pair) auto
  from Cons.IH [OF rest]
  have "length rest = 2 * length rows" "numbered_from (1000000 + N + (s + 2)) rest"
    by simp_all
  with ab show ?case
    by (simp add: ls numbered_from_Cons algebra_simps)
qed

lemma link_numbers:
  assumes "create_service_boarding_links lib self frame node_df [] = Inr ls"
  shows "\<exists>route_links sta2route_links.
           ls = route_links @ sta2route_links
           \<and> map link_id route_links =
               map (\<lambda>j. 1000001 + int j) [0 ..< length route_links]
           \<and> map link_id sta2route_links =
               map (\<lambda>j. 1000000 + int (length route_links) + int j) [0 ..< length sta2route_links]
           \<and> length sta2route_links = 2 * length (filter (\<lambda>row. node_id row \<noteq> physical_node_id row) node_df)"
proof -
  from assms obtain f N xs ys where
    xs: "service_links lib (dict_zip (map node_name node_df) (map node_id node_df))
           (groupby directed_service_id frame) [] Map.empty 0 = Inr (f, N, xs)"
    and ys: "boarding_links lib self (dict_zip (map node_id node_df) (map node_name node_df))
           (dict_zip (map node_id node_df) (map x_coord node_df))
           (dict_zip (map node_id node_df) (map y_coord node_df)) f N
           (filter (\<lambda>row. node_id row \<noteq> physical_node_id row) node_df) 0 = Inr ys"
    and ls: "ls = xs @ ys"
    by (auto simp: create_service_boarding_links_def Let_def split: sum.splits)
  from service_links_numbered [OF xs] have N: "N = int (length xs)"
    and nx: "numbered_from 1000001 xs"
    by simp_all
  from boarding_links_numbered [OF ys]
  have ly: "length ys = 2 * length (filter (\<lambda>row. node_id row \<noteq> physical_node_id row) node_df)"
    and ny: "numbered_from (1000000 + N) ys"
    by simp_all
  from nx ny N ly ls
  have "ls = xs @ ys
           \<and> map link_id xs = map (\<lambda>j. 1000001 + int j) [0 ..< length xs]
           \<and> map link_id ys = map (\<lambda>j. 1000000 + int (length xs) + int j) [0 ..< length ys]
           \<and> length ys = 2 * length (filter (\<lambda>row. node_id row \<noteq> physical_node_id row) node_df)"
    by (simp add: numbered_from_def algebra_simps)
  then show ?thesis
    by (intro exI [of _ xs] exI [of _ ys])
qed

lemma ranks_2: "ranks (Suc (Suc 0)) = [1, 2]"
  by (simp add: ranks_def int32_def upto.simps)

lemma in_window_tables:
  "agency_txt feed_in_window = [''Metro'']"
  "repair_quotes (routes_txt feed_in_window)
     (map (recode_direction (trips_has_direction_id feed_in_window)) (trips_txt feed_in_window)) =
   Inr (routes_txt feed_in_window,
        [\<lparr>trip_trip_id = ''T1'', trip_route_id = ''R1'', trip_direction_id = ''2'',
          trip_directed_route_id = ''R1.2''\<rparr>])"
  by (simp_all add: feed_in_window_def two_stop_feed_def repair_quotes_def starts_with_quote_def
      recode_direction_def str_int_def str_nat_digit digit_char_def Let_def)

lemma in_window_times:
  "convert_times (drop_blank_times (stop_times_txt feed_in_window)) =
     Inr [visit ''T1'' 430 ''A'' 1, visit ''T1'' 440 ''B'' 2]"
  by (simp add: feed_in_window_def two_stop_feed_def drop_blank_times_def convert_times_def
      arrival_minutes_def departure_minutes_def visit_def time_eval)

lemma in_window_labeled:
  "stop_time_df_with_terminal sample_lib window_0700_0800
     [visit ''T1'' 430 ''A'' 1, visit ''T1'' 440 ''B'' 2] =
   Inr [\<lparr>trip_id = ''T1'', arrival_time = 430, departure_time = Some 430, stop_id = ''A'',
         stop_sequence = 1, terminal_flag = ''origin'', stop_sequence_label = ''A;B;''\<rparr>,
        \<lparr>trip_id = ''T1'', arrival_time = 440, departure_time = Some 440, stop_id = ''B'',
         stop_sequence = 2, terminal_flag = ''destination'', stop_sequence_label = ''A;B;''\<rparr>]"
  by (simp add: stop_time_df_with_terminal_def input_list_def groupby_def in_window_def
      visit_def window_0700_0800_def sample_lib_def sample_terminal_flag_def sample_label_def
      pd_concat_def Let_def)

lemma in_window_frame:
  "read_gtfs_data sample_lib window_0700_0800 feed_in_window = Inr frame_in_window"
  by (simp add: read_gtfs_data_def in_window_tables in_window_times in_window_labeled)
     (simp add: feed_in_window_def two_stop_feed_def trip_route_merge_def merge_def
      enriched_row_def frame_in_window_def int32_def)

lemma physical_in_window:
  "physical_node_df sample_lib frame_in_window = take 2 nodes_in_window"
  by (simp add: physical_node_df_def frame_in_window_def nodes_in_window_def ranks_2
      physical_node_def sample_lib_def int32_def Let_def)

lemma create_nodes_in_window:
  "create_nodes sample_lib frame_in_window = Inr nodes_in_window"
  by (simp add: create_nodes_def physical_in_window Let_def)
     (simp add: service_node_df_def frame_in_window_def nodes_in_window_def ranks_2
      service_node_def sample_lib_def int32_def Let_def dict_zip_def)

lemma links_in_window:
  "\<exists>links.
     create_service_boarding_links sample_lib window_0700_0800 frame_in_window
       nodes_in_window [] = Inr links
     \<and> map link_type links = [1, 2, 2, 2, 2]
     \<and> map link_id links = [1000001, 1000001, 1000002, 1000003, 1000004]
     \<and> map endpoints links =
           [(1500001, 1500002), (1000001, 1500001), (1500001, 1000001),
            (1000002, 1500002), (1500002, 1000002)]"
  by (simp add: create_service_boarding_links_def groupby_def frame_in_window_def
      nodes_in_window_def dict_zip_def unique_def service_link_def boarding_link_pair_def
      sample_lib_def window_0700_0800_def Let_def endpoints_def)

lemma no_transfer_in_window:
  "create_transferring_links sample_lib nodes_in_window ls = ls"
  by (simp add: create_transferring_links_def physical_nodes_def nodes_in_window_def
      origin_links_def neighboring_node_df_def Let_def)

lemma drop_duplicates_last_id:
  "distinct (map key xs) \<Longrightarrow> drop_duplicates_last key xs = xs"
  by (induction xs) auto

text \<open>
  C3. The claim: service link IDs start at 1000001 and the boarding link IDs continue the same
  strictly increasing sequence, so that no two service or boarding links share a \<^verbatim>\<open>link_id\<close>.
  The service loop numbers its links \<^verbatim>\<open>1000000 + number_of_route_links + 1\<close>; the boarding loop
  leaves out the \<^verbatim>\<open>+ 1\<close> and numbers the first boarding link
  \<^verbatim>\<open>1000000 + number_of_route_links + 0\<close>, the number of the last service link. For the feed
  with one trip over two stops inside the window, the one service link and the first boarding
  link both get 1000001, and both are rows of the link table that \<^verbatim>\<open>main\<close> returns.
\<close>

theorem boarding_link_id_repeats:
  "read_gtfs_data sample_lib window_0700_0800 feed_in_window = Inr frame_in_window
   \<and> create_nodes sample_lib frame_in_window = Inr nodes_in_window
   \<and> (\<exists>links.
         create_service_boarding_links sample_lib window_0700_0800 frame_in_window
           nodes_in_window [] = Inr links
         \<and> map link_type links = [1, 2, 2, 2, 2]
         \<and> map link_id links = [1000001, 1000001, 1000002, 1000003, 1000004]
         \<and> \<not> distinct (map link_id links)
         \<and> main sample_lib window_0700_0800 feed_in_window = Inr (nodes_in_window, links))"
proof (intro conjI)
  show "read_gtfs_data sample_lib window_0700_0800 feed_in_window = Inr frame_in_window"
    by (rule in_window_frame)
  show "create_nodes sample_lib frame_in_window = Inr nodes_in_window"
    by (rule create_nodes_in_window)
  obtain links where
    run: "create_service_boarding_links sample_lib window_0700_0800 frame_in_window
            nodes_in_window [] = Inr links"
    and types: "map link_type links = [1, 2, 2, 2, 2]"
    and ids: "map link_id links = [1000001, 1000001, 1000002, 1000003, 1000004]"
    and ends: "map endpoints links =
           [(1500001, 1500002), (1000001, 1500001), (1500001, 1000001),
            (1000002, 1500002), (1500002, 1000002)]"
    using links_in_window by (elim exE conjE)
  from ids have repeated: "\<not> distinct (map link_id links)"
    by simp
  have "distinct (map endpoints links)"
    by (simp add: ends)
  then have "dedup_links links = links"
    unfolding dedup_links_def by (rule drop_duplicates_last_id)
  then have final: "main sample_lib window_0700_0800 feed_in_window = Inr (nodes_in_window, links)"
    by (simp add: main_def in_window_frame create_nodes_in_window run no_transfer_in_window)
  from run types ids repeated final
  show "\<exists>links.
          create_service_boarding_links sample_lib window_0700_0800 frame_in_window
            nodes_in_window [] = Inr links
          \<and> map link_type links = [1, 2, 2, 2, 2]
          \<and> map link_id links = [1000001, 1000001, 1000002, 1000003, 1000004]
          \<and> \<not> distinct (map link_id links)
          \<and> main sample_lib window_0700_0800 feed_in_window = Inr (nodes_in_window, links)"
    by (intro exI [of _ links] conjI)
qed

subsection \<open>Transfer links\<close>












subsection \<open>Node construction\<close>






































subsection \<open>Deduplication\<close>








end
